theory Spec2Isabelle
  imports Main "HOL-Library.Sublist"
begin

section \<open>The type-level program and its values\<close>

text \<open>
  TDungeon is written in the type language of TypeScript: the game state is a type, and
  \<^verbatim>\<open>Act<TGameState, TAction>\<close> is a type alias that the compiler evaluates. The embedding
  follows that evaluation. A literal type is the value it denotes, a tuple type is a list,
  an object type is a record (or, for an action table, the list of its entries in the
  order they are written), and a conditional type \<^verbatim>\<open>A extends B ? X : Y\<close> is a test on the
  value. A union of literal types has no order of its own in the source: the compiler holds
  its members by the ids it gave them, and those ids are a parameter of the embedding (see
  the unions of TypeUtils.ts below). Assignability follows \<^verbatim>\<open>strictNullChecks\<close>: \<^verbatim>\<open>undefined\<close> and
  \<^verbatim>\<open>null\<close> are not numbers or objects. The states are those whose health, position and
  inventory are single literal types, as are all states that \<^verbatim>\<open>NewGame\<close> and \<^verbatim>\<open>Act\<close> produce.
\<close>

subsection \<open>TDungeon.ts: data\<close>

datatype GameItems = Small_Key | Spider_Mask | Green_Gem

text \<open>The keys of \<^verbatim>\<open>Actions\<close>, the table of effects.\<close>

datatype ActionKey =
    keyRoom_key
  | keyRoom_exit
  | spidersRoomSouthDoor_runForDoor
  | spidersRoomSouthDoor_exit
  | spidersRoomEastDoor_runForDoor
  | spidersRoom_putMask
  | chest_unlock
  | chest_force
  | chest_leave

text \<open>\<^verbatim>\<open>[GameItems | undefined, keyof Actions<any>]\<close>; \<open>None\<close> is \<^verbatim>\<open>undefined\<close>.\<close>

type_synonym MapElementAction = "GameItems option \<times> ActionKey"

text \<open>
  \<^verbatim>\<open>Corridor<TDescription, TTarget>\<close>, \<^verbatim>\<open>Room<TDescription, TInsideDescription, TActions>\<close>,
  \<^verbatim>\<open>Item<TDescription, TActions>\<close>, and a level with its three slots Left, Forward, Right.
\<close>

datatype MapElement =
    Wall
  | Corridor string MapLevel
  | Room string string "(string \<times> MapElementAction) list"
  | Item string "(string \<times> MapElementAction) list"
and MapLevel = MapLevel MapElement MapElement MapElement

text \<open>
  The fields \<^verbatim>\<open>description\<close> and \<^verbatim>\<open>actions\<close> of an element; those of \<^verbatim>\<open>Wall\<close> are fixed by its
  type, and a corridor has the empty object type for its actions.
\<close>

fun description :: "MapElement \<Rightarrow> string" where
  "description Wall = ''It's a wall''"
| "description (Corridor d t) = d"
| "description (Room d i a) = d"
| "description (Item d a) = d"

fun actions :: "MapElement \<Rightarrow> (string \<times> MapElementAction) list" where
  "actions Wall = []"
| "actions (Corridor d t) = []"
| "actions (Room d i a) = a"
| "actions (Item d a) = a"

text \<open>The field \<^verbatim>\<open>actions\<close> of every \<^verbatim>\<open>MapLevel\<close>: a direction and the index of its slot.\<close>

definition MapLevel_actions :: "(string \<times> (GameItems option \<times> nat)) list" where
  "MapLevel_actions = [(''left'', (None, 0)), (''forward'', (None, 1)), (''right'', (None, 2))]"

fun level :: "MapLevel \<Rightarrow> MapElement list" where
  "level (MapLevel l f r) = [l, f, r]"

text \<open>\<^verbatim>\<open>Get<TCurrentPosition, ["level", TDirection]>\<close>; \<open>None\<close> is the fallback \<^verbatim>\<open>undefined\<close>.\<close>

definition Get_level :: "MapLevel \<Rightarrow> nat \<Rightarrow> MapElement option" where
  "Get_level TCollection K =
     (if K < length (level TCollection) then Some (level TCollection ! K) else None)"

text \<open>\<^verbatim>\<open>InteractiveMapElement\<close> is \<^verbatim>\<open>Room | Item\<close>.\<close>

definition extends_InteractiveMapElement :: "MapElement \<Rightarrow> bool" where
  "extends_InteractiveMapElement e =
     (case e of Wall \<Rightarrow> False | Corridor d t \<Rightarrow> False | Room d i a \<Rightarrow> True | Item d a \<Rightarrow> True)"

text \<open>
  A number type as it occurs in \<^verbatim>\<open>health\<close>: a literal, or what \<^verbatim>\<open>Num.Decrement\<close> returns
  outside its tables, \<^verbatim>\<open>undefined\<close> or \<^verbatim>\<open>never\<close>.
\<close>

datatype TNumber = NumLit int | NumUndefined | NumNever

datatype Position = AtLevel MapLevel | AtElement MapElement

record PlayerState =
  health :: TNumber
  position :: Position
  inventory :: "GameItems list"

type_synonym GameState = "string \<times> PlayerState"

text \<open>The second component of what \<^verbatim>\<open>Act\<close> returns: a player state, \<^verbatim>\<open>null\<close> or \<^verbatim>\<open>never\<close>.\<close>

datatype PlayerResult = Player PlayerState | Null | Never

subsection \<open>TypeUtils.ts\<close>

text \<open>\<^verbatim>\<open>List.Join<TTuple, TDelimeter>\<close>\<close>

fun List_Join :: "string list \<Rightarrow> string \<Rightarrow> string" where
  "List_Join [] d = ''''"
| "List_Join [h] d = h"
| "List_Join (h # t) d = h @ d @ List_Join t d"

text \<open>
  Unions. The compiler gives every type an id when it first creates it, keeps one type for
  every string literal, and holds the members of a union in the order of their ids. Which of
  two literals it creates first depends on the whole compilation, not on the object type
  that writes them as keys: the ids are the parameter \<open>TypeId\<close> of every function that reads
  a union in order. A union is the list of its members, without repetition and in the order
  of their ids; \<open>Union_of\<close> builds it, and the empty union is \<^verbatim>\<open>never\<close>.
\<close>

definition Union_of :: "('a \<Rightarrow> nat) \<Rightarrow> 'a list \<Rightarrow> 'a list" where
  "Union_of TypeId members = sort_key TypeId (remdups members)"

text \<open>
  \<^verbatim>\<open>Obj.KeyWithValue<TObj, TValueType>\<close>: the union of the keys whose value extends
  \<^verbatim>\<open>TValueType\<close>, given here as the test \<open>ext\<close>. The order in which \<^verbatim>\<open>TObj\<close> declares its
  keys is lost in the union.
\<close>

definition Obj_KeyWithValue :: "('k \<Rightarrow> nat) \<Rightarrow> ('k \<times> 'v) list \<Rightarrow> ('v \<Rightarrow> bool) \<Rightarrow> 'k list" where
  "Obj_KeyWithValue TypeId TObj ext =
     Union_of TypeId (map fst (filter (\<lambda>kv. ext (snd kv)) TObj))"

text \<open>
  \<^verbatim>\<open>Union.Exclude\<close>, \<^verbatim>\<open>Union.Pop\<close> (the last member of the union, the one of greatest id, or
  \<^verbatim>\<open>never\<close> for \<^verbatim>\<open>never\<close>), \<^verbatim>\<open>Union.Popped\<close> and \<^verbatim>\<open>Union.ToTuple\<close>, which takes the last member
  off until \<^verbatim>\<open>never\<close> is left.
\<close>

definition Union_Exclude :: "'a list \<Rightarrow> 'a list \<Rightarrow> 'a list" where
  "Union_Exclude TUnion TValue = filter (\<lambda>x. x \<notin> set TValue) TUnion"

definition Union_Pop :: "('a \<Rightarrow> nat) \<Rightarrow> 'a list \<Rightarrow> 'a list" where
  "Union_Pop TypeId TUnion = (if TUnion = [] then [] else [last (sort_key TypeId TUnion)])"

definition Union_Popped :: "('a \<Rightarrow> nat) \<Rightarrow> 'a list \<Rightarrow> 'a list" where
  "Union_Popped TypeId TUnion = Union_Exclude TUnion (Union_Pop TypeId TUnion)"

lemma length_Union_Popped:
  "TUnion \<noteq> [] \<Longrightarrow> length (Union_Popped TypeId TUnion) < length TUnion"
proof -
  assume ne: "TUnion \<noteq> []"
  then have "sort_key TypeId TUnion \<noteq> []" by (cases TUnion) simp_all
  then have "last (sort_key TypeId TUnion) \<in> set (sort_key TypeId TUnion)" by (rule last_in_set)
  then have "last (sort_key TypeId TUnion) \<in> set TUnion" by simp
  then have "length (filter (\<lambda>x. x \<noteq> last (sort_key TypeId TUnion)) TUnion) < length TUnion"
    by (simp add: length_filter_less)
  with ne show ?thesis by (simp add: Union_Popped_def Union_Exclude_def Union_Pop_def)
qed

function Union_ToTuple :: "('a \<Rightarrow> nat) \<Rightarrow> 'a list \<Rightarrow> 'a list" where
  "Union_ToTuple TypeId TUnion =
     (if TUnion = [] then []
      else Union_ToTuple TypeId (Union_Popped TypeId TUnion) @ Union_Pop TypeId TUnion)"
  by pat_completeness auto
termination
  by (relation "measure (\<lambda>(TypeId, TUnion). length TUnion)") (auto simp: length_Union_Popped)

declare Union_ToTuple.simps [simp del]

text \<open>
  \<^verbatim>\<open>Num\<close>: the tables of integers, \<^verbatim>\<open>IsNegative\<close> (the decimal text starts with a minus
  sign), \<^verbatim>\<open>Negate\<close> and \<^verbatim>\<open>Decrement\<close>. \<open>tuple_at\<close> is \<^verbatim>\<open>Get<TTuple, N>\<close> at a whole number:
  \<^verbatim>\<open>undefined\<close> past the end of the tuple. \<open>Num_FromString_digits\<close> is \<^verbatim>\<open>Num.FromString\<close> on the
  text of a positive whole number: the entry of \<^verbatim>\<open>PositiveIntegersUnshifted\<close> under that
  key, \<^verbatim>\<open>never\<close> when there is no such key. For a positive number \<^verbatim>\<open>Negate\<close> asks
  \<^verbatim>\<open>FromString\<close> for a text with a minus sign, which no key of \<^verbatim>\<open>NegativeIntegersUnshifted\<close>
  yields (\<^verbatim>\<open>Num.Assert\<close> widens the key, a string, to \<^verbatim>\<open>number\<close>): the result is \<^verbatim>\<open>never\<close>.
  \<^verbatim>\<open>Decrement\<close> calls \<^verbatim>\<open>Negate\<close> on negative numbers only. On \<^verbatim>\<open>undefined\<close> the key is no key
  of the tuple and \<^verbatim>\<open>Get\<close> falls back to \<^verbatim>\<open>undefined\<close>; on \<^verbatim>\<open>never\<close> every conditional type
  on the way yields \<^verbatim>\<open>never\<close>.
\<close>

definition Num_PositiveIntegers :: "int list" where
  "Num_PositiveIntegers = [1, 2, 3, 4, 5, 6, 7, 8, 9, 10, 11, 12, 13, 14, 15, 16, 17, 18, 19, 20]"

definition Num_NegativeIntegers :: "int list" where
  "Num_NegativeIntegers =
     [-1, -2, -3, -4, -5, -6, -7, -8, -9, -10, -11, -12, -13, -14, -15, -16, -17, -18, -19, -20]"

definition Num_PositiveIntegersUnshifted :: "int list" where
  "Num_PositiveIntegersUnshifted = 0 # Num_PositiveIntegers"

definition Num_PositiveIntegersUnshiftedTwice :: "int list" where
  "Num_PositiveIntegersUnshiftedTwice = -1 # Num_PositiveIntegersUnshifted"

definition tuple_at :: "int list \<Rightarrow> nat \<Rightarrow> TNumber" where
  "tuple_at TTuple n = (if n < length TTuple then NumLit (TTuple ! n) else NumUndefined)"

definition Num_IsNegative :: "int \<Rightarrow> bool" where
  "Num_IsNegative N = (N < 0)"

definition Num_FromString_digits :: "nat \<Rightarrow> TNumber" where
  "Num_FromString_digits S =
     (if S < length Num_PositiveIntegersUnshifted then NumLit (Num_PositiveIntegersUnshifted ! S)
      else NumNever)"

definition Num_Negate :: "int \<Rightarrow> TNumber" where
  "Num_Negate N =
     (if N = 0 then NumLit 0
      else if Num_IsNegative N then Num_FromString_digits (nat (- N))
      else NumNever)"

fun Num_Decrement :: "TNumber \<Rightarrow> TNumber" where
  "Num_Decrement (NumLit N) =
     (if \<not> Num_IsNegative N then tuple_at Num_PositiveIntegersUnshiftedTwice (nat N)
      else (case Num_Negate N of
              NumLit K \<Rightarrow> tuple_at Num_NegativeIntegers (nat K)
            | NumUndefined \<Rightarrow> NumUndefined
            | NumNever \<Rightarrow> NumNever))"
| "Num_Decrement NumUndefined = NumUndefined"
| "Num_Decrement NumNever = NumNever"

subsection \<open>TDungeon.ts: the map\<close>

definition GameMap_4 :: MapLevel where
  "GameMap_4 = MapLevel
     Wall
     (Room ''a door - and you can feel air current comming from below it''
        ''You open the door to a completely dark room. As the door slams shut behind you notice another door on the left wall and... lot's of venomous spiders''
        [(''Exit through the other door'', (None, spidersRoomEastDoor_runForDoor)),
         (''Put on the mask'', (Some Spider_Mask, spidersRoom_putMask))])
     Wall"

definition GameMap_3 :: MapLevel where
  "GameMap_3 = MapLevel
     (Corridor ''that keep following the tunel seems to be your only option'' GameMap_4)
     Wall
     Wall"

definition GameMap_2 :: MapLevel where
  "GameMap_2 = MapLevel
     (Corridor ''that the tunnel you're in continues'' GameMap_3)
     Wall
     (Item ''Locked Chest''
        [(''Use the Small key'', (Some Small_Key, chest_unlock)),
         (''Force it open'', (None, chest_force)),
         (''Leave it'', (None, chest_leave))])"

definition GameMap_1 :: MapLevel where
  "GameMap_1 = MapLevel
     Wall
     (Room ''a door - and you can feel air current comming through it''
        ''You open the door to a room full of venomous spiders. There's another door in the right wall''
        [(''Reach for the other door'', (None, spidersRoomSouthDoor_runForDoor)),
         (''Exit from where you came'', (None, spidersRoomSouthDoor_exit)),
         (''Put on the mask'', (Some Spider_Mask, spidersRoom_putMask))])
     (Corridor ''a tunnel that biffurcates'' GameMap_2)"

definition GameMap_0 :: MapLevel where
  "GameMap_0 = MapLevel
     (Room ''a half opened door''
        ''Opening the door you find youserlf in a room with a small desk. The desk has one drawer''
        [(''Open the drawer'', (None, keyRoom_key)),
         (''Exit the room'', (None, keyRoom_exit))])
     (Corridor ''a dark and humid corridor.'' GameMap_1)
     Wall"

definition GameMap :: "MapLevel list" where
  "GameMap = [GameMap_0, GameMap_1, GameMap_2, GameMap_3, GameMap_4]"

subsection \<open>TDungeon.ts: descriptions and available actions\<close>

definition Directions :: "string list" where
  "Directions = [''On your left you notice'', ''In front of you there's'', ''On your right you see'']"

text \<open>
  One entry of the mapped type in \<^verbatim>\<open>DescribeMapLevel\<close>: the empty text for a wall, the
  phrase of the slot and the description otherwise.
\<close>

definition describe_slot :: "nat \<Rightarrow> MapElement \<Rightarrow> string" where
  "describe_slot Index e =
     (if e = Wall then '''' else (Directions ! Index) @ '' '' @ description e @ ''.'')"

fun DescribeMapLevel :: "MapLevel \<Rightarrow> string" where
  "DescribeMapLevel (MapLevel l f r) =
     List_Join [describe_slot 0 l, describe_slot 1 f, describe_slot 2 r] '' ''"

text \<open>
  \<^verbatim>\<open>ListActions<TGameState, TActions>\<close>: the keys of \<^verbatim>\<open>TActions\<close> whose entry extends
  \<^verbatim>\<open>[undefined | TGameState[1]["inventory"][number], any]\<close>, as a union.
\<close>

definition ListActions ::
  "(string \<Rightarrow> nat) \<Rightarrow> GameState \<Rightarrow> (string \<times> (GameItems option \<times> 'a)) list \<Rightarrow> string list" where
  "ListActions TypeId TGameState TActions =
     Obj_KeyWithValue TypeId TActions
       (\<lambda>v. case fst v of None \<Rightarrow> True | Some i \<Rightarrow> i \<in> set (inventory (snd TGameState)))"

text \<open>
  \<^verbatim>\<open>ListActions<TGameState>\<close> with \<^verbatim>\<open>TActions\<close> at its default, the actions of the position.
\<close>

definition ListActions_position :: "(string \<Rightarrow> nat) \<Rightarrow> GameState \<Rightarrow> string list" where
  "ListActions_position TypeId TGameState =
     (case position (snd TGameState) of
        AtLevel l \<Rightarrow> ListActions TypeId TGameState MapLevel_actions
      | AtElement e \<Rightarrow> ListActions TypeId TGameState (actions e))"

subsection \<open>TDungeon.ts: the transition\<close>

text \<open>\<^verbatim>\<open>Move\<close>; \<open>None\<close> is the result \<^verbatim>\<open>undefined\<close> of a key that is no direction.\<close>

definition Move ::
  "(string \<Rightarrow> nat) \<Rightarrow> GameState \<Rightarrow> string \<Rightarrow> MapLevel \<Rightarrow> (string \<times> PlayerState) option" where
  "Move TypeId TGameState TAction TCurrentPosition =
     (case map_of MapLevel_actions TAction of
        None \<Rightarrow> None
      | Some (req, TDirection) \<Rightarrow>
          (case Get_level TCurrentPosition TDirection of
             None \<Rightarrow> None
           | Some Wall \<Rightarrow>
               Some (''You can't go this way. '' @ DescribeMapLevel TCurrentPosition,
                     snd TGameState)
           | Some (Corridor d target) \<Rightarrow>
               Some (DescribeMapLevel target,
                     (snd TGameState)\<lparr>position := AtLevel target\<rparr>)
           | Some (Room d insideDescription acts) \<Rightarrow>
               Some (insideDescription @ ''. Your available actions are: ''
                       @ List_Join (Union_ToTuple TypeId (ListActions TypeId TGameState acts)) '', '',
                     (snd TGameState)\<lparr>position := AtElement (Room d insideDescription acts)\<rparr>)
           | Some (Item d acts) \<Rightarrow>
               Some (''You reach for the '' @ d @ ''. Your available actions are: ''
                       @ List_Join (Union_ToTuple TypeId (ListActions TypeId TGameState acts)) '', '',
                     (snd TGameState)\<lparr>position := AtElement (Item d acts)\<rparr>)))"

text \<open>
  \<^verbatim>\<open>Actions<TPlayerState>\<close>: the narration of an effect and the updated player state;
  \<open>None\<close> is \<^verbatim>\<open>never\<close>, the second component of \<^verbatim>\<open>spidersRoom.putMask\<close>.
\<close>

fun Actions :: "PlayerState \<Rightarrow> ActionKey \<Rightarrow> string \<times> PlayerState option" where
  "Actions TPlayerState keyRoom_key =
     (''You find a small key! You put in your pocket and leave the room, leaving the door open as you found.'',
      Some (TPlayerState\<lparr>position := AtLevel GameMap_0,
                         inventory := Small_Key # inventory TPlayerState\<rparr>))"
| "Actions TPlayerState keyRoom_exit =
     (''You leave the room.'',
      Some (TPlayerState\<lparr>position := AtLevel GameMap_0\<rparr>))"
| "Actions TPlayerState spidersRoomSouthDoor_runForDoor =
     (''You make a run for the other door, only to find it locked. You get back from where you came and, as you leave the room, you are bitten and loose one hit point.'',
      Some (TPlayerState\<lparr>health := Num_Decrement (health TPlayerState),
                         position := AtLevel GameMap_1\<rparr>))"
| "Actions TPlayerState spidersRoomSouthDoor_exit =
     (''You just go back from where you came and avoid getting hurt.'',
      Some (TPlayerState\<lparr>position := AtLevel GameMap_1\<rparr>))"
| "Actions TPlayerState spidersRoomEastDoor_runForDoor =
     (''You make a run for the other door, and as you cross it you are bitten and loose one hit point.'',
      Some (TPlayerState\<lparr>position := AtLevel GameMap_1,
                         health := Num_Decrement (health TPlayerState)\<rparr>))"
| "Actions TPlayerState spidersRoom_putMask =
     (''As soon as you put on the mask, the spiders gather around you, and as you move, they spread out making way for you. You focus your efforts in investigating the room and find a hidden passage that leads you... to the lost treasure of Anders Hejlsberg! You did it adventurer, now go check the code.'',
      None)"
| "Actions TPlayerState chest_unlock =
     (''You grab the small key from your pocket and it fits in the chest lock. Click. Inside the chest you find a hairy mask with multiple eyes. You put it in your bag and close the chest.'',
      Some (TPlayerState\<lparr>position := AtLevel GameMap_2,
                         inventory := Spider_Mask # inventory TPlayerState\<rparr>))"
| "Actions TPlayerState chest_force =
     (''As you rattle the chest's lock, a spider comes out of nowhere and bites you. '',
      Some (TPlayerState\<lparr>position := AtLevel GameMap_2,
                         health := Num_Decrement (health TPlayerState)\<rparr>))"
| "Actions TPlayerState chest_leave =
     ('''',
      Some (TPlayerState\<lparr>position := AtLevel GameMap_2\<rparr>))"

text \<open>
  The tests of \<^verbatim>\<open>CheckActionResult\<close> and \<^verbatim>\<open>Act\<close> on a selected action. \<^verbatim>\<open>health extends 0\<close>
  holds of the literal 0 and of \<^verbatim>\<open>never\<close>; a selected action extends \<^verbatim>\<open>GameState\<close> unless
  its health is \<^verbatim>\<open>undefined\<close>.
\<close>

fun extends_0 :: "TNumber \<Rightarrow> bool" where
  "extends_0 (NumLit n) = (n = 0)"
| "extends_0 NumUndefined = False"
| "extends_0 NumNever = True"

fun extends_GameState :: "string \<times> PlayerState option \<Rightarrow> bool" where
  "extends_GameState (t, None) = True"
| "extends_GameState (t, Some p) = (health p \<noteq> NumUndefined)"

fun CheckActionResult :: "string \<times> PlayerState option \<Rightarrow> string \<times> PlayerResult" where
  "CheckActionResult (t, None) = (t, Never)"
| "CheckActionResult (t, Some p) =
     (if extends_0 (health p) then (t @ '' You are Dead - Game Over!'', Null)
      else (case position p of
              AtLevel l \<Rightarrow> (t @ '' '' @ DescribeMapLevel l, Player p)
            | AtElement e \<Rightarrow> (t, Player p)))"

text \<open>
  What an instantiation of \<^verbatim>\<open>Act\<close> can be besides a game state: rejected by the compiler,
  because \<^verbatim>\<open>TAction\<close> does not satisfy its constraint \<^verbatim>\<open>ListActions<TGameState>\<close>, or a type
  that is no game state (\<^verbatim>\<open>never\<close>, \<^verbatim>\<open>undefined\<close>).
\<close>

datatype ActError = IllegalAction | NotAGameState

text \<open>
  \<^verbatim>\<open>Act<TGameState, TAction>\<close>, with the third parameter \<^verbatim>\<open>TPlayerState\<close> at its default
  \<^verbatim>\<open>TGameState[1]\<close>. \<open>TypeId\<close> is the compiler's numbering of the key literals; only the
  order of the actions that \<^verbatim>\<open>Move\<close> lists depends on it.
\<close>

definition Act ::
  "(string \<Rightarrow> nat) \<Rightarrow> GameState \<Rightarrow> string \<Rightarrow> ActError + string \<times> PlayerResult" where
  "Act TypeId TGameState TAction =
     (if TAction \<notin> set (ListActions_position TypeId TGameState) then Inl IllegalAction
      else (case position (snd TGameState) of
              AtLevel TCurrentPosition \<Rightarrow>
                (case Move TypeId TGameState TAction TCurrentPosition of
                   None \<Rightarrow> Inl NotAGameState
                 | Some (t, p) \<Rightarrow> Inr (t, Player p))
            | AtElement TCurrentPosition \<Rightarrow>
                if extends_InteractiveMapElement TCurrentPosition
                then (case map_of (actions TCurrentPosition) TAction of
                        None \<Rightarrow> Inl NotAGameState
                      | Some (req, k) \<Rightarrow>
                          (let TSelectedAction = Actions (snd TGameState) k
                           in if extends_GameState TSelectedAction
                              then Inr (CheckActionResult TSelectedAction)
                              else Inl NotAGameState))
                else Inl NotAGameState))"

definition NewState :: PlayerState where
  "NewState = \<lparr>health = NumLit 2, position = AtLevel GameMap_0, inventory = []\<rparr>"

text \<open>\<^verbatim>\<open>NewGame\<close>; \<^verbatim>\<open>NewState["position"]\<close> is \<^verbatim>\<open>GameMap[0]\<close>.\<close>

definition NewGame :: GameState where
  "NewGame =
     (''Welcome Adventurer. You locked yourself in this dungeon and you can't go back. ''
        @ DescribeMapLevel GameMap_0
        @ '' Use the type Act<TGameState, TAction>.'',
      NewState)"

subsection \<open>An assignment of type ids\<close>

text \<open>
  The ids that result when the compiler creates the key literals in the order in which
  TDungeon.ts first writes them: the number of a literal is its place in the list.
  "Put on the mask" is a key of the room of level 1 and of the room of level 4; it is one
  literal type with one id, and that id is below the one of "Exit through the other door".
\<close>

definition TypeId_of :: "'a list \<Rightarrow> 'a \<Rightarrow> nat" where
  "TypeId_of created k = length (takeWhile (\<lambda>x. x \<noteq> k) created)"

definition KeyLiterals_as_written :: "string list" where
  "KeyLiterals_as_written =
     [''left'', ''forward'', ''right'',
      ''Open the drawer'', ''Exit the room'',
      ''Reach for the other door'', ''Exit from where you came'', ''Put on the mask'',
      ''Use the Small key'', ''Force it open'', ''Leave it'',
      ''Exit through the other door'']"

definition TypeId_as_written :: "string \<Rightarrow> nat" where
  "TypeId_as_written = TypeId_of KeyLiterals_as_written"

subsection \<open>The wording of the specification, for comparison\<close>

text \<open>
  \<^verbatim>\<open>DescribeLevel\<close> as the specification words it: only the non-empty contributions are
  joined.
\<close>

definition DescribeLevel_spec :: "MapLevel \<Rightarrow> string" where
  "DescribeLevel_spec l =
     List_Join (filter (\<lambda>c. c \<noteq> '''')
       [describe_slot 0 (level l ! 0), describe_slot 1 (level l ! 1), describe_slot 2 (level l ! 2)]) '' ''"

section \<open>Properties\<close>

subsection \<open>Auxiliary facts\<close>

lemma filter_last_distinct:
  assumes "distinct s" and "s \<noteq> []"
  shows "filter (\<lambda>x. x \<noteq> last s) s = butlast s"
proof -
  from assms(2) obtain ys y where s: "s = ys @ [y]" by (cases s rule: rev_cases) auto
  with assms(1) have "y \<notin> set ys" by simp
  then have "filter (\<lambda>x. x \<noteq> y) ys = ys" by (induction ys) auto
  with s show ?thesis by simp
qed

text \<open>\<^verbatim>\<open>Union.ToTuple\<close> lists the members of a union by ascending id.\<close>

lemma Union_ToTuple_sort_key:
  "distinct TUnion \<Longrightarrow> Union_ToTuple TypeId TUnion = sort_key TypeId TUnion"
proof (induction TypeId TUnion rule: Union_ToTuple.induct)
  case (1 TypeId TUnion)
  show ?case
  proof (cases "TUnion = []")
    case True
    then show ?thesis by (simp add: Union_ToTuple.simps)
  next
    case False
    let ?s = "sort_key TypeId TUnion"
    from False have ne: "?s \<noteq> []" by (cases TUnion) simp_all
    from "1.prems" have ds: "distinct ?s" by simp
    from False have popped:
      "Union_Popped TypeId TUnion = filter (\<lambda>x. x \<noteq> last ?s) TUnion"
      by (simp add: Union_Popped_def Union_Exclude_def Union_Pop_def)
    with "1.prems" have "distinct (Union_Popped TypeId TUnion)" by simp
    with "1.IH" False have
      "Union_ToTuple TypeId (Union_Popped TypeId TUnion) = sort_key TypeId (Union_Popped TypeId TUnion)"
      by simp
    also have "\<dots> = filter (\<lambda>x. x \<noteq> last ?s) ?s" by (simp add: popped filter_sort)
    also have "\<dots> = butlast ?s" using ds ne by (rule filter_last_distinct)
    finally have "Union_ToTuple TypeId (Union_Popped TypeId TUnion) = butlast ?s" .
    moreover have "Union_ToTuple TypeId TUnion =
        Union_ToTuple TypeId (Union_Popped TypeId TUnion) @ [last ?s]"
      using False by (subst Union_ToTuple.simps) (simp add: Union_Pop_def)
    ultimately show ?thesis using ne by simp
  qed
qed

lemma set_ListActions:
  "set (ListActions TypeId TGameState TActions) =
     set (map fst (filter (\<lambda>kv. case fst (snd kv) of None \<Rightarrow> True
                                | Some i \<Rightarrow> i \<in> set (inventory (snd TGameState))) TActions))"
  by (simp add: ListActions_def Obj_KeyWithValue_def Union_of_def)


lemma ListActions_MapLevel_actions:
  "set (ListActions TypeId TGameState MapLevel_actions) = {''left'', ''forward'', ''right''}"
  by (auto simp: set_ListActions MapLevel_actions_def)


text \<open>The ids of the key literals when they are created in the order of TDungeon.ts.\<close>

lemma TypeId_as_written_ascending:
  "sorted (map TypeId_as_written KeyLiterals_as_written)"
  by (simp add: TypeId_as_written_def TypeId_of_def KeyLiterals_as_written_def)

lemmas ListActions_as_written =
  ListActions_def Obj_KeyWithValue_def Union_of_def Union_ToTuple_sort_key
  TypeId_as_written_def TypeId_of_def KeyLiterals_as_written_def

text \<open>Inside its tables, from 0 to 21, \<^verbatim>\<open>Num.Decrement\<close> subtracts one.\<close>

lemma nth_Num_PositiveIntegersUnshiftedTwice:
  "k < 22 \<Longrightarrow> Num_PositiveIntegersUnshiftedTwice ! k = int k - 1"
proof -
  assume "k < 22"
  then have "k \<in> set [0..<22]" by simp
  then show ?thesis
    unfolding Num_PositiveIntegersUnshiftedTwice_def Num_PositiveIntegersUnshifted_def Num_PositiveIntegers_def
    by (simp add: upt_rec) (elim disjE; simp)
qed

lemma Num_Decrement_table:
  assumes "0 \<le> N" and "N \<le> 21"
  shows "Num_Decrement (NumLit N) = NumLit (N - 1)"
proof -
  from assms have lt: "nat N < 22" by simp
  have len: "length Num_PositiveIntegersUnshiftedTwice = 22"
    by (simp add: Num_PositiveIntegersUnshiftedTwice_def Num_PositiveIntegersUnshifted_def
        Num_PositiveIntegers_def)
  from assms lt show ?thesis
    by (simp add: Num_IsNegative_def tuple_at_def len nth_Num_PositiveIntegersUnshiftedTwice)
qed

declare Num_Decrement.simps [simp del]

text \<open>\<^verbatim>\<open>Act\<close> at a level and inside a room or an item, once the action is known to be legal.\<close>

lemma Act_AtLevel:
  assumes "position (snd TGameState) = AtLevel l"
  shows "Act TypeId TGameState TAction =
     (if TAction \<in> {''left'', ''forward'', ''right''}
      then (case Move TypeId TGameState TAction l of
              None \<Rightarrow> Inl NotAGameState
            | Some (t, p) \<Rightarrow> Inr (t, Player p))
      else Inl IllegalAction)"
  using assms
  by (simp add: Act_def ListActions_position_def ListActions_MapLevel_actions)

lemma Act_AtElement:
  assumes "position (snd TGameState) = AtElement e"
    and "TAction \<in> set (ListActions TypeId TGameState (actions e))"
    and "map_of (actions e) TAction = Some (req, k)"
  shows "Act TypeId TGameState TAction =
     (if extends_GameState (Actions (snd TGameState) k)
      then Inr (CheckActionResult (Actions (snd TGameState) k))
      else Inl NotAGameState)"
proof -
  from assms(3) have "extends_InteractiveMapElement e"
    by (cases e) (simp_all add: extends_InteractiveMapElement_def)
  with assms show ?thesis
    by (simp add: Act_def ListActions_position_def)
qed

lemma Move_direction:
  assumes "(TAction, TDirection) \<in> {(''left'', 0), (''forward'', 1), (''right'', 2)}"
  shows "map_of MapLevel_actions TAction = Some (None, TDirection) \<and>
         Get_level l TDirection = Some (level l ! TDirection) \<and>
         TAction \<in> {''left'', ''forward'', ''right''}"
proof -
  obtain a b c where l: "l = MapLevel a b c" by (cases l)
  from assms have "map_of MapLevel_actions TAction = Some (None, TDirection)"
    by (auto simp: MapLevel_actions_def)
  moreover from assms have "TDirection < 3" by auto
  then have "Get_level l TDirection = Some (level l ! TDirection)"
    by (simp add: Get_level_def l)
  moreover from assms have "TAction \<in> {''left'', ''forward'', ''right''}" by auto
  ultimately show ?thesis by simp
qed

subsection \<open>A new game\<close>

text \<open>
  C9: the narration of \<^verbatim>\<open>NewGame\<close> starts with "Welcome Adventurer", and its player state is
  exactly health 2, the empty inventory and the position at level 0, the first level of the
  map.
\<close>

theorem NewGame_initial:
  "prefix ''Welcome Adventurer'' (fst NewGame) \<and>
   snd NewGame = \<lparr>health = NumLit 2, position = AtLevel (GameMap ! 0), inventory = []\<rparr>"
  by (simp add: NewGame_def NewState_def GameMap_def prefix_def)

subsection \<open>The description of a level\<close>

text \<open>
  C3, as stated, fails: a wall contributes the empty text, and \<^verbatim>\<open>List.Join\<close> joins all three
  contributions, the empty ones too. Level 0 has a wall on the right, so its description
  ends in the separator, where the specification's wording gives no trailing space.
\<close>

theorem DescribeMapLevel_keeps_separators:
  "DescribeMapLevel GameMap_0 =
     ''On your left you notice a half opened door. In front of you there's a dark and humid corridor.. '' \<and>
   DescribeLevel_spec GameMap_0 =
     ''On your left you notice a half opened door. In front of you there's a dark and humid corridor..'' \<and>
   DescribeMapLevel GameMap_0 \<noteq> DescribeLevel_spec GameMap_0"
  by (simp add: DescribeLevel_spec_def GameMap_0_def describe_slot_def Directions_def)

text \<open>
  C3, amended: for every level, \<^verbatim>\<open>DescribeMapLevel\<close> contributes the empty text for a wall
  slot and the fixed phrase of the slot, a space, the description of the element and a full
  stop for any other slot, and joins all three contributions in the order left, forward,
  right with a single space between neighbours; the separators around an empty contribution
  stay.
\<close>

theorem DescribeMapLevel_joins_three:
  "DescribeMapLevel (MapLevel l f r) =
     (if l = Wall then '''' else ''On your left you notice '' @ description l @ ''.'') @ '' '' @
     (if f = Wall then '''' else ''In front of you there's '' @ description f @ ''.'') @ '' '' @
     (if r = Wall then '''' else ''On your right you see '' @ description r @ ''.'')"
  by (simp add: describe_slot_def Directions_def)

subsection \<open>The available actions\<close>




subsection \<open>Navigation\<close>

text \<open>
  C6: for every state at a level and every direction whose slot holds a wall, \<^verbatim>\<open>Act\<close> returns
  the narration "You can't go this way. " followed by the description of the current level,
  and the player state of the input: position, health and inventory are unchanged.
\<close>

theorem Wall_keeps_state:
  assumes "position (snd TGameState) = AtLevel l"
    and "(TAction, TDirection) \<in> {(''left'', 0), (''forward'', 1), (''right'', 2)}"
    and "level l ! TDirection = Wall"
  shows "Act TypeId TGameState TAction =
     Inr (''You can't go this way. '' @ DescribeMapLevel l, Player (snd TGameState))"
proof -
  from Move_direction [OF assms(2), of l] assms(3)
  have "Move TypeId TGameState TAction l =
      Some (''You can't go this way. '' @ DescribeMapLevel l, snd TGameState)"
    by (simp add: Move_def)
  with Move_direction [OF assms(2), of l] show ?thesis
    by (simp add: Act_AtLevel [OF assms(1)])
qed

theorem Wall_keeps_state_witness:
  "position (snd NewGame) = AtLevel GameMap_0 \<and> level GameMap_0 ! 2 = Wall \<and>
   Act TypeId_as_written NewGame ''right'' =
     Inr (''You can't go this way. '' @ DescribeMapLevel GameMap_0, Player (snd NewGame))"
proof -
  have p: "position (snd NewGame) = AtLevel GameMap_0" by (simp add: NewGame_def NewState_def)
  have w: "level GameMap_0 ! 2 = Wall" by (simp add: GameMap_0_def)
  have d: "(''right'', 2::nat) \<in> {(''left'', 0), (''forward'', 1), (''right'', 2)}" by simp
  from Wall_keeps_state [OF p d w] p w show ?thesis by simp
qed

text \<open>
  C4, as stated, fails: \<^verbatim>\<open>Move\<close> puts a full stop between the inside text and
  " Your available actions are: ", and for an item it puts "You reach for the " before the
  description. Going left at level 0 and going right at level 2 show both.
\<close>

theorem Move_narration_has_more_text:
  "Act TypeId_as_written NewGame ''left'' =
     Inr (''Opening the door you find youserlf in a room with a small desk. The desk has one drawer. Your available actions are: Open the drawer, Exit the room'',
          Player \<lparr>health = NumLit 2, position = AtElement (level GameMap_0 ! 0), inventory = []\<rparr>) \<and>
   Act TypeId_as_written NewGame ''left'' \<noteq>
     Inr (''Opening the door you find youserlf in a room with a small desk. The desk has one drawer''
            @ '' Your available actions are: '' @ ''Open the drawer, Exit the room'',
          Player \<lparr>health = NumLit 2, position = AtElement (level GameMap_0 ! 0), inventory = []\<rparr>) \<and>
   Act TypeId_as_written ('''', \<lparr>health = NumLit 2, position = AtLevel GameMap_2, inventory = []\<rparr>) ''right'' =
     Inr (''You reach for the Locked Chest. Your available actions are: Force it open, Leave it'',
          Player \<lparr>health = NumLit 2, position = AtElement (level GameMap_2 ! 2), inventory = []\<rparr>) \<and>
   Act TypeId_as_written ('''', \<lparr>health = NumLit 2, position = AtLevel GameMap_2, inventory = []\<rparr>) ''right'' \<noteq>
     Inr (''Locked Chest'' @ '' Your available actions are: '' @ ''Force it open, Leave it'',
          Player \<lparr>health = NumLit 2, position = AtElement (level GameMap_2 ! 2), inventory = []\<rparr>)"
proof -
  have p0: "position (snd NewGame) = AtLevel GameMap_0" by (simp add: NewGame_def NewState_def)
  have l0: "ListActions TypeId_as_written NewGame
      [(''Open the drawer'', (None, keyRoom_key)), (''Exit the room'', (None, keyRoom_exit))] =
      [''Open the drawer'', ''Exit the room'']"
    by (simp add: ListActions_as_written)
  have m0: "Move TypeId_as_written NewGame ''left'' GameMap_0 =
     Some (''Opening the door you find youserlf in a room with a small desk. The desk has one drawer. Your available actions are: Open the drawer, Exit the room'',
          \<lparr>health = NumLit 2, position = AtElement (level GameMap_0 ! 0), inventory = []\<rparr>)"
    by (simp add: Move_def MapLevel_actions_def Get_level_def GameMap_0_def l0
         ListActions_as_written)
       (simp add: NewGame_def NewState_def)
  let ?g = "('''', \<lparr>health = NumLit 2, position = AtLevel GameMap_2, inventory = []\<rparr>) :: GameState"
  have m2: "Move TypeId_as_written ?g ''right'' GameMap_2 =
     Some (''You reach for the Locked Chest. Your available actions are: Force it open, Leave it'',
          \<lparr>health = NumLit 2, position = AtElement (level GameMap_2 ! 2), inventory = []\<rparr>)"
    by (simp add: Move_def MapLevel_actions_def Get_level_def GameMap_2_def
        ListActions_as_written)
  have r0: "Act TypeId_as_written NewGame ''left'' =
     Inr (''Opening the door you find youserlf in a room with a small desk. The desk has one drawer. Your available actions are: Open the drawer, Exit the room'',
          Player \<lparr>health = NumLit 2, position = AtElement (level GameMap_0 ! 0), inventory = []\<rparr>)"
    by (simp add: Act_AtLevel [OF p0] m0)
  have r2: "Act TypeId_as_written ?g ''right'' =
     Inr (''You reach for the Locked Chest. Your available actions are: Force it open, Leave it'',
          Player \<lparr>health = NumLit 2, position = AtElement (level GameMap_2 ! 2), inventory = []\<rparr>)"
    by (simp add: Act_AtLevel m2)
  show ?thesis
    by (simp only: r0 r2) simp
qed

text \<open>
  C4, amended: for every state at a level and every direction whose slot holds a room or an
  item, the new position is that element itself, health and inventory are unchanged, and the
  narration is, for a room, its inside description, and for an item, "You reach for the "
  followed by its description, in both cases followed by ". Your available actions are: "
  and the available action ids of the element joined with ", ".
\<close>

theorem Move_into_Room_or_Item:
  assumes "position (snd TGameState) = AtLevel l"
    and "(TAction, TDirection) \<in> {(''left'', 0), (''forward'', 1), (''right'', 2)}"
  shows "(level l ! TDirection = Room d insideDescription acts \<longrightarrow>
            Act TypeId TGameState TAction =
              Inr (insideDescription @ ''. Your available actions are: ''
                     @ List_Join (Union_ToTuple TypeId (ListActions TypeId TGameState acts)) '', '',
                   Player ((snd TGameState)\<lparr>position := AtElement (Room d insideDescription acts)\<rparr>))) \<and>
         (level l ! TDirection = Item d acts \<longrightarrow>
            Act TypeId TGameState TAction =
              Inr (''You reach for the '' @ d @ ''. Your available actions are: ''
                     @ List_Join (Union_ToTuple TypeId (ListActions TypeId TGameState acts)) '', '',
                   Player ((snd TGameState)\<lparr>position := AtElement (Item d acts)\<rparr>)))"
  using Move_direction [OF assms(2), of l]
  by (simp add: Act_AtLevel [OF assms(1)] Move_def)

theorem Move_into_Room_or_Item_witness:
  "Act TypeId_as_written NewGame ''left'' =
     Inr (''Opening the door you find youserlf in a room with a small desk. The desk has one drawer''
            @ ''. Your available actions are: ''
            @ List_Join (Union_ToTuple TypeId_as_written (ListActions TypeId_as_written NewGame
                [(''Open the drawer'', (None, keyRoom_key)), (''Exit the room'', (None, keyRoom_exit))])) '', '',
          Player ((snd NewGame)\<lparr>position := AtElement (level GameMap_0 ! 0)\<rparr>)) \<and>
   Act TypeId_as_written ('''', NewState\<lparr>position := AtLevel GameMap_2\<rparr>) ''right'' =
     Inr (''You reach for the '' @ ''Locked Chest'' @ ''. Your available actions are: ''
            @ List_Join (Union_ToTuple TypeId_as_written (ListActions TypeId_as_written ('''', NewState\<lparr>position := AtLevel GameMap_2\<rparr>)
                (actions (level GameMap_2 ! 2)))) '', '',
          Player (NewState\<lparr>position := AtElement (level GameMap_2 ! 2)\<rparr>))"
proof -
  let ?g = "('''', NewState\<lparr>position := AtLevel GameMap_2\<rparr>) :: GameState"
  have p0: "position (snd NewGame) = AtLevel GameMap_0" by (simp add: NewGame_def NewState_def)
  have d0: "(''left'', 0::nat) \<in> {(''left'', 0), (''forward'', 1), (''right'', 2)}" by simp
  have e0: "level GameMap_0 ! 0 = Room ''a half opened door''
      ''Opening the door you find youserlf in a room with a small desk. The desk has one drawer''
      [(''Open the drawer'', (None, keyRoom_key)), (''Exit the room'', (None, keyRoom_exit))]"
    by (simp add: GameMap_0_def)
  have p2: "position (snd ?g) = AtLevel GameMap_2" by simp
  have d2: "(''right'', 2::nat) \<in> {(''left'', 0), (''forward'', 1), (''right'', 2)}" by simp
  have e2: "level GameMap_2 ! 2 = Item ''Locked Chest'' (actions (level GameMap_2 ! 2))"
    by (simp add: GameMap_2_def)
  from Move_into_Room_or_Item [OF p0 d0, THEN conjunct1, rule_format, OF e0]
  have r0: "Act TypeId_as_written NewGame ''left'' =
     Inr (''Opening the door you find youserlf in a room with a small desk. The desk has one drawer''
            @ ''. Your available actions are: ''
            @ List_Join (Union_ToTuple TypeId_as_written (ListActions TypeId_as_written NewGame
                [(''Open the drawer'', (None, keyRoom_key)), (''Exit the room'', (None, keyRoom_exit))])) '', '',
          Player ((snd NewGame)\<lparr>position := AtElement (level GameMap_0 ! 0)\<rparr>))"
    by (simp only: e0)
  from Move_into_Room_or_Item [OF p2 d2, THEN conjunct2, rule_format, OF e2]
  have r2: "Act TypeId_as_written ?g ''right'' =
     Inr (''You reach for the '' @ ''Locked Chest'' @ ''. Your available actions are: ''
            @ List_Join (Union_ToTuple TypeId_as_written (ListActions TypeId_as_written ?g (actions (level GameMap_2 ! 2)))) '', '',
          Player (NewState\<lparr>position := AtElement (level GameMap_2 ! 2)\<rparr>))"
    using e2 by simp
  from r0 r2 show ?thesis by (rule conjI)
qed

subsection \<open>Illegal actions\<close>

text \<open>
  C8: for every state and every action id that is not valid for the current position (a key
  that is no direction while at a level, a key that the action table of the room or item
  does not have, or a key of the table whose required item is not in the inventory), \<^verbatim>\<open>Act\<close>
  fails with the error \<open>IllegalAction\<close>; it returns no game state. In the source this is
  the constraint \<^verbatim>\<open>TAction extends ListActions<TGameState>\<close>, which the compiler reports.
\<close>

theorem Illegal_action_rejected:
  assumes "(\<exists>l. position (snd TGameState) = AtLevel l \<and>
                TAction \<notin> {''left'', ''forward'', ''right''}) \<or>
           (\<exists>e. position (snd TGameState) = AtElement e \<and>
                TAction \<notin> fst ` set (actions e)) \<or>
           (\<exists>e item k. position (snd TGameState) = AtElement e \<and>
                distinct (map fst (actions e)) \<and>
                map_of (actions e) TAction = Some (Some item, k) \<and>
                item \<notin> set (inventory (snd TGameState)))"
  shows "Act TypeId TGameState TAction = Inl IllegalAction"
proof -
  have "TAction \<notin> set (ListActions_position TypeId TGameState)"
    using assms
  proof (elim disjE exE conjE)
    fix l
    assume "position (snd TGameState) = AtLevel l"
      and "TAction \<notin> {''left'', ''forward'', ''right''}"
    then show ?thesis
      by (simp add: ListActions_position_def ListActions_MapLevel_actions)
  next
    fix e
    assume "position (snd TGameState) = AtElement e" and "TAction \<notin> fst ` set (actions e)"
    then show ?thesis
      by (auto simp: ListActions_position_def set_ListActions)
  next
    fix e item k
    assume p: "position (snd TGameState) = AtElement e"
      and d: "distinct (map fst (actions e))"
      and m: "map_of (actions e) TAction = Some (Some item, k)"
      and n: "item \<notin> set (inventory (snd TGameState))"
    show ?thesis
    proof
      assume "TAction \<in> set (ListActions_position TypeId TGameState)"
      with p obtain v where v: "(TAction, v) \<in> set (actions e)"
        and av: "case fst v of None \<Rightarrow> True | Some i \<Rightarrow> i \<in> set (inventory (snd TGameState))"
        by (auto simp: ListActions_position_def set_ListActions)
      from d v have "map_of (actions e) TAction = Some v" by simp
      with m have "v = (Some item, k)" by simp
      with av n show False by simp
    qed
  qed
  then show ?thesis by (simp add: Act_def)
qed

theorem Illegal_action_rejected_witness:
  "Act TypeId_as_written NewGame ''Open the drawer'' = Inl IllegalAction \<and>
   Act TypeId_as_written ('''', NewState\<lparr>position := AtElement (level GameMap_0 ! 0)\<rparr>) ''left'' = Inl IllegalAction \<and>
   Act TypeId_as_written ('''', NewState\<lparr>position := AtElement (level GameMap_1 ! 1)\<rparr>) ''Put on the mask'' = Inl IllegalAction"
proof -
  let ?k = "('''', NewState\<lparr>position := AtElement (level GameMap_0 ! 0)\<rparr>) :: GameState"
  let ?s = "('''', NewState\<lparr>position := AtElement (level GameMap_1 ! 1)\<rparr>) :: GameState"
  have h1: "\<exists>l. position (snd NewGame) = AtLevel l \<and>
      ''Open the drawer'' \<notin> {''left'', ''forward'', ''right''}"
    by (simp add: NewGame_def NewState_def)
  have h2: "\<exists>e. position (snd ?k) = AtElement e \<and> ''left'' \<notin> fst ` set (actions e)"
    by (simp add: GameMap_0_def)
  have h3: "\<exists>e item k. position (snd ?s) = AtElement e \<and>
      distinct (map fst (actions e)) \<and>
      map_of (actions e) ''Put on the mask'' = Some (Some item, k) \<and>
      item \<notin> set (inventory (snd ?s))"
    by (simp add: GameMap_1_def NewState_def)
  from h1 have r1: "Act TypeId_as_written NewGame ''Open the drawer'' = Inl IllegalAction"
    by (intro Illegal_action_rejected) blast
  from h2 have r2: "Act TypeId_as_written ?k ''left'' = Inl IllegalAction"
    by (intro Illegal_action_rejected) blast
  from h3 have r3: "Act TypeId_as_written ?s ''Put on the mask'' = Inl IllegalAction"
    by (intro Illegal_action_rejected) blast
  from r1 r2 r3 show ?thesis by simp
qed

subsection \<open>Interaction and the check of its result\<close>

text \<open>
  C1, as stated, fails for navigation: \<^verbatim>\<open>Act\<close> passes the result of an interaction through
  \<^verbatim>\<open>CheckActionResult\<close>, and returns the result of \<^verbatim>\<open>Move\<close> as it is. A player with health 0
  at level 0 who walks into the wall on the right gets the state back, health 0 included,
  and no game over.
\<close>

theorem Navigation_is_not_checked:
  "Move TypeId_as_written ('''', \<lparr>health = NumLit 0, position = AtLevel GameMap_0, inventory = []\<rparr>) ''right'' GameMap_0 =
     Some (''You can't go this way. '' @ DescribeMapLevel GameMap_0,
           \<lparr>health = NumLit 0, position = AtLevel GameMap_0, inventory = []\<rparr>) \<and>
   Act TypeId_as_written ('''', \<lparr>health = NumLit 0, position = AtLevel GameMap_0, inventory = []\<rparr>) ''right'' =
     Inr (''You can't go this way. '' @ DescribeMapLevel GameMap_0,
          Player \<lparr>health = NumLit 0, position = AtLevel GameMap_0, inventory = []\<rparr>) \<and>
   Act TypeId_as_written ('''', \<lparr>health = NumLit 0, position = AtLevel GameMap_0, inventory = []\<rparr>) ''right'' \<noteq>
     Inr ((''You can't go this way. '' @ DescribeMapLevel GameMap_0) @ '' You are Dead - Game Over!'',
          Null)"
proof -
  have m: "Move TypeId_as_written ('''', \<lparr>health = NumLit 0, position = AtLevel GameMap_0, inventory = []\<rparr>) ''right'' GameMap_0 =
     Some (''You can't go this way. '' @ DescribeMapLevel GameMap_0,
           \<lparr>health = NumLit 0, position = AtLevel GameMap_0, inventory = []\<rparr>)"
    by (simp add: Move_def MapLevel_actions_def Get_level_def GameMap_0_def)
  then show ?thesis by (simp add: Act_AtLevel)
qed

text \<open>
  C1, amended: for every state inside a room or an item and every legal action there whose
  effect yields a player state with health 0, \<^verbatim>\<open>Act\<close> returns the narration of the effect with
  " You are Dead - Game Over!" appended and a null player state; this holds for every
  effect, whether or not it changes the health. The check is not applied to navigation: at a
  level, \<^verbatim>\<open>Act\<close> returns the narration and the player state of \<^verbatim>\<open>Move\<close> as they are.
\<close>

theorem Dead_after_interaction:
  "(position (snd TGameState) = AtElement e \<and>
    TAction \<in> set (ListActions TypeId TGameState (actions e)) \<and>
    map_of (actions e) TAction = Some (req, k) \<and>
    Actions (snd TGameState) k = (t, Some p) \<and> health p = NumLit 0
    \<longrightarrow> Act TypeId TGameState TAction = Inr (t @ '' You are Dead - Game Over!'', Null)) \<and>
   (position (snd TGameState) = AtLevel l \<and>
    TAction \<in> {''left'', ''forward'', ''right''} \<and>
    Move TypeId TGameState TAction l = Some (t', p')
    \<longrightarrow> Act TypeId TGameState TAction = Inr (t', Player p'))"
proof (intro conjI impI)
  assume a: "position (snd TGameState) = AtElement e \<and>
    TAction \<in> set (ListActions TypeId TGameState (actions e)) \<and>
    map_of (actions e) TAction = Some (req, k) \<and>
    Actions (snd TGameState) k = (t, Some p) \<and> health p = NumLit 0"
  then have "Act TypeId TGameState TAction =
     (if extends_GameState (Actions (snd TGameState) k)
      then Inr (CheckActionResult (Actions (snd TGameState) k))
      else Inl NotAGameState)"
    by (intro Act_AtElement) auto
  with a show "Act TypeId TGameState TAction = Inr (t @ '' You are Dead - Game Over!'', Null)"
    by simp
next
  assume a: "position (snd TGameState) = AtLevel l \<and>
    TAction \<in> {''left'', ''forward'', ''right''} \<and>
    Move TypeId TGameState TAction l = Some (t', p')"
  then show "Act TypeId TGameState TAction = Inr (t', Player p')"
    by (simp add: Act_AtLevel)
qed

theorem Dead_after_interaction_witness:
  "Act TypeId_as_written ('''', \<lparr>health = NumLit 1, position = AtElement (level GameMap_1 ! 1), inventory = []\<rparr>)
       ''Reach for the other door'' =
     Inr (fst (Actions \<lparr>health = NumLit 1, position = AtElement (level GameMap_1 ! 1), inventory = []\<rparr>
                 spidersRoomSouthDoor_runForDoor)
            @ '' You are Dead - Game Over!'', Null) \<and>
   Act TypeId_as_written ('''', \<lparr>health = NumLit 2, position = AtLevel GameMap_0, inventory = []\<rparr>) ''forward'' =
     Inr (DescribeMapLevel GameMap_1,
          Player \<lparr>health = NumLit 2, position = AtLevel GameMap_1, inventory = []\<rparr>)"
proof -
  let ?s = "\<lparr>health = NumLit 1, position = AtElement (level GameMap_1 ! 1), inventory = []\<rparr>"
  let ?p = "\<lparr>health = NumLit 0, position = AtLevel GameMap_1, inventory = []\<rparr>"
  let ?t = "fst (Actions ?s spidersRoomSouthDoor_runForDoor)"
  let ?n = "\<lparr>health = NumLit 2, position = AtLevel GameMap_0, inventory = []\<rparr>"
  let ?gs = "('''', ?s) :: GameState"
  let ?gn = "('''', ?n) :: GameState"
  have d: "Num_Decrement (NumLit 1) = NumLit 0" by (simp add: Num_Decrement_table)
  have h1: "position (snd ?gs) = AtElement (level GameMap_1 ! 1) \<and>
    ''Reach for the other door'' \<in> set (ListActions TypeId_as_written ?gs (actions (level GameMap_1 ! 1))) \<and>
    map_of (actions (level GameMap_1 ! 1)) ''Reach for the other door'' =
      Some (None, spidersRoomSouthDoor_runForDoor) \<and>
    Actions (snd ?gs) spidersRoomSouthDoor_runForDoor = (?t, Some ?p) \<and> health ?p = NumLit 0"
    by (simp add: GameMap_1_def set_ListActions d)
  have h2: "position (snd ?gn) = AtLevel GameMap_0 \<and>
    ''forward'' \<in> {''left'', ''forward'', ''right''} \<and>
    Move TypeId_as_written ?gn ''forward'' GameMap_0 =
      Some (DescribeMapLevel GameMap_1, ?n\<lparr>position := AtLevel GameMap_1\<rparr>)"
    by (simp add: Move_def MapLevel_actions_def Get_level_def GameMap_0_def)
  from Dead_after_interaction [of ?gs "level GameMap_1 ! 1" "''Reach for the other door''"
      TypeId_as_written
      None spidersRoomSouthDoor_runForDoor ?t ?p] h1
  have r1: "Act TypeId_as_written ?gs ''Reach for the other door'' = Inr (?t @ '' You are Dead - Game Over!'', Null)"
    by blast
  from Dead_after_interaction [of ?gn _ "''forward''" TypeId_as_written _ _ _ _ GameMap_0
      "DescribeMapLevel GameMap_1" "?n\<lparr>position := AtLevel GameMap_1\<rparr>"] h2
  have r2: "Act TypeId_as_written ?gn ''forward'' =
      Inr (DescribeMapLevel GameMap_1, Player (?n\<lparr>position := AtLevel GameMap_1\<rparr>))"
    by blast
  from r1 r2 show ?thesis by simp
qed

text \<open>
  C5, as stated, fails: the test of the health comes before the test of the position. In the
  spider room of level 1 with health 1, "Reach for the other door" yields a player state
  positioned at level 1, a \<^verbatim>\<open>MapLevel\<close>, with health 0; \<^verbatim>\<open>Act\<close> returns the game over narration
  and a null player state, not the description of level 1 and the new state.
\<close>

theorem Health_check_comes_first:
  "Actions \<lparr>health = NumLit 1, position = AtElement (level GameMap_1 ! 1), inventory = []\<rparr>
       spidersRoomSouthDoor_runForDoor =
     (''You make a run for the other door, only to find it locked. You get back from where you came and, as you leave the room, you are bitten and loose one hit point.'',
      Some \<lparr>health = NumLit 0, position = AtLevel GameMap_1, inventory = []\<rparr>) \<and>
   Act TypeId_as_written ('''', \<lparr>health = NumLit 1, position = AtElement (level GameMap_1 ! 1), inventory = []\<rparr>)
       ''Reach for the other door'' =
     Inr (''You make a run for the other door, only to find it locked. You get back from where you came and, as you leave the room, you are bitten and loose one hit point. You are Dead - Game Over!'',
          Null)"
proof -
  let ?s = "\<lparr>health = NumLit 1, position = AtElement (level GameMap_1 ! 1), inventory = []\<rparr>"
  let ?gs = "('''', ?s) :: GameState"
  have d: "Num_Decrement (NumLit 1) = NumLit 0" by (simp add: Num_Decrement_table)
  have a: "Actions ?s spidersRoomSouthDoor_runForDoor =
     (''You make a run for the other door, only to find it locked. You get back from where you came and, as you leave the room, you are bitten and loose one hit point.'',
      Some \<lparr>health = NumLit 0, position = AtLevel GameMap_1, inventory = []\<rparr>)"
    by (simp add: d)
  have "Act TypeId_as_written ?gs ''Reach for the other door'' =
     (if extends_GameState (Actions (snd ?gs) spidersRoomSouthDoor_runForDoor)
      then Inr (CheckActionResult (Actions (snd ?gs) spidersRoomSouthDoor_runForDoor))
      else Inl NotAGameState)"
    by (rule Act_AtElement [where req = None and e = "level GameMap_1 ! 1"])
       (simp_all add: GameMap_1_def set_ListActions)
  then have "Act TypeId_as_written ?gs ''Reach for the other door'' =
     Inr (''You make a run for the other door, only to find it locked. You get back from where you came and, as you leave the room, you are bitten and loose one hit point. You are Dead - Game Over!'',
          Null)"
    by (simp add: d)
  with a show ?thesis by (rule conjI)
qed

text \<open>
  C5, amended: for every legal interaction whose resulting player state has a health that is
  a number other than 0 and a position that is a \<^verbatim>\<open>MapLevel\<close>, \<^verbatim>\<open>Act\<close> returns the narration of
  the effect, a single space and the description of that level, with the new player state.
  In particular, "Open the drawer" in the key room, with such a health, yields the inventory
  with "Small Key" put in front, the position level 0, and the pickup text followed by a
  space and the description of level 0.
\<close>

theorem Interaction_back_at_level:
  "(position (snd TGameState) = AtElement e \<and>
    TAction \<in> set (ListActions TypeId TGameState (actions e)) \<and>
    map_of (actions e) TAction = Some (req, k) \<and>
    Actions (snd TGameState) k = (t, Some p) \<and>
    position p = AtLevel l \<and> health p = NumLit n \<and> n \<noteq> 0
    \<longrightarrow> Act TypeId TGameState TAction = Inr (t @ '' '' @ DescribeMapLevel l, Player p)) \<and>
   (position (snd TGameState) = AtElement (level GameMap_0 ! 0) \<and>
    health (snd TGameState) = NumLit n \<and> n \<noteq> 0
    \<longrightarrow> Act TypeId TGameState ''Open the drawer'' =
          Inr (''You find a small key! You put in your pocket and leave the room, leaving the door open as you found.''
                 @ '' '' @ DescribeMapLevel GameMap_0,
               Player ((snd TGameState)\<lparr>position := AtLevel GameMap_0,
                                          inventory := Small_Key # inventory (snd TGameState)\<rparr>)))"
proof (intro conjI impI)
  assume a: "position (snd TGameState) = AtElement e \<and>
    TAction \<in> set (ListActions TypeId TGameState (actions e)) \<and>
    map_of (actions e) TAction = Some (req, k) \<and>
    Actions (snd TGameState) k = (t, Some p) \<and>
    position p = AtLevel l \<and> health p = NumLit n \<and> n \<noteq> 0"
  then have "Act TypeId TGameState TAction =
     (if extends_GameState (Actions (snd TGameState) k)
      then Inr (CheckActionResult (Actions (snd TGameState) k))
      else Inl NotAGameState)"
    by (intro Act_AtElement) auto
  with a show "Act TypeId TGameState TAction = Inr (t @ '' '' @ DescribeMapLevel l, Player p)"
    by simp
next
  assume a: "position (snd TGameState) = AtElement (level GameMap_0 ! 0) \<and>
    health (snd TGameState) = NumLit n \<and> n \<noteq> 0"
  have acts: "actions (level GameMap_0 ! 0) =
      [(''Open the drawer'', (None, keyRoom_key)), (''Exit the room'', (None, keyRoom_exit))]"
    by (simp add: GameMap_0_def)
  from a have "Act TypeId TGameState ''Open the drawer'' =
     (if extends_GameState (Actions (snd TGameState) keyRoom_key)
      then Inr (CheckActionResult (Actions (snd TGameState) keyRoom_key))
      else Inl NotAGameState)"
    by (intro Act_AtElement [where req = None and e = "level GameMap_0 ! 0"])
       (simp_all add: acts set_ListActions)
  with a show "Act TypeId TGameState ''Open the drawer'' =
          Inr (''You find a small key! You put in your pocket and leave the room, leaving the door open as you found.''
                 @ '' '' @ DescribeMapLevel GameMap_0,
               Player ((snd TGameState)\<lparr>position := AtLevel GameMap_0,
                                          inventory := Small_Key # inventory (snd TGameState)\<rparr>))"
    by simp
qed

theorem Interaction_back_at_level_witness:
  "Act TypeId_as_written ('''', \<lparr>health = NumLit 2, position = AtElement (level GameMap_1 ! 1), inventory = []\<rparr>)
       ''Reach for the other door'' =
     Inr (fst (Actions \<lparr>health = NumLit 2, position = AtElement (level GameMap_1 ! 1), inventory = []\<rparr>
                 spidersRoomSouthDoor_runForDoor)
            @ '' '' @ DescribeMapLevel GameMap_1,
          Player \<lparr>health = NumLit 1, position = AtLevel GameMap_1, inventory = []\<rparr>) \<and>
   Act TypeId_as_written ('''', \<lparr>health = NumLit 2, position = AtElement (level GameMap_0 ! 0), inventory = []\<rparr>)
       ''Open the drawer'' =
     Inr (''You find a small key! You put in your pocket and leave the room, leaving the door open as you found.''
            @ '' '' @ DescribeMapLevel GameMap_0,
          Player \<lparr>health = NumLit 2, position = AtLevel GameMap_0, inventory = [Small_Key]\<rparr>)"
proof -
  let ?s = "\<lparr>health = NumLit 2, position = AtElement (level GameMap_1 ! 1), inventory = []\<rparr>"
  let ?p = "\<lparr>health = NumLit 1, position = AtLevel GameMap_1, inventory = []\<rparr>"
  let ?t = "fst (Actions ?s spidersRoomSouthDoor_runForDoor)"
  let ?k = "\<lparr>health = NumLit 2, position = AtElement (level GameMap_0 ! 0), inventory = []\<rparr>"
  let ?gs = "('''', ?s) :: GameState"
  let ?gk = "('''', ?k) :: GameState"
  have d: "Num_Decrement (NumLit 2) = NumLit 1" by (simp add: Num_Decrement_table)
  have h1: "position (snd ?gs) = AtElement (level GameMap_1 ! 1) \<and>
    ''Reach for the other door'' \<in> set (ListActions TypeId_as_written ?gs (actions (level GameMap_1 ! 1))) \<and>
    map_of (actions (level GameMap_1 ! 1)) ''Reach for the other door'' =
      Some (None, spidersRoomSouthDoor_runForDoor) \<and>
    Actions (snd ?gs) spidersRoomSouthDoor_runForDoor = (?t, Some ?p) \<and>
    position ?p = AtLevel GameMap_1 \<and> health ?p = NumLit 1 \<and> (1::int) \<noteq> 0"
    by (simp add: GameMap_1_def set_ListActions d)
  have h2: "position (snd ?gk) = AtElement (level GameMap_0 ! 0) \<and>
    health (snd ?gk) = NumLit 2 \<and> (2::int) \<noteq> 0"
    by simp
  from Interaction_back_at_level [of ?gs "level GameMap_1 ! 1" "''Reach for the other door''"
      TypeId_as_written
      None spidersRoomSouthDoor_runForDoor ?t ?p GameMap_1 1] h1
  have r1: "Act TypeId_as_written ?gs ''Reach for the other door'' =
      Inr (?t @ '' '' @ DescribeMapLevel GameMap_1, Player ?p)"
    by blast
  from Interaction_back_at_level [where TGameState = ?gk and n = 2 and TypeId = TypeId_as_written, THEN conjunct2, rule_format] h2
  have r2: "Act TypeId_as_written ?gk ''Open the drawer'' =
     Inr (''You find a small key! You put in your pocket and leave the room, leaving the door open as you found.''
            @ '' '' @ DescribeMapLevel GameMap_0,
          Player ((snd ?gk)\<lparr>position := AtLevel GameMap_0,
                              inventory := Small_Key # inventory (snd ?gk)\<rparr>))"
    by blast
  from r1 r2 show ?thesis by simp
qed

text \<open>
  C7, as stated, fails: the entry \<^verbatim>\<open>spidersRoom.putMask\<close> of \<^verbatim>\<open>Actions\<close> has \<^verbatim>\<open>never\<close> in the place
  of the player state, and \<^verbatim>\<open>CheckActionResult\<close> returns such an entry as it is. With the
  mask in the spider room of level 1, \<^verbatim>\<open>Act\<close> returns the win text and \<^verbatim>\<open>never\<close>, not the
  player state of the input.
\<close>

theorem Terminal_effect_drops_player_state:
  "Act TypeId_as_written ('''', \<lparr>health = NumLit 2, position = AtElement (level GameMap_1 ! 1),
               inventory = [Spider_Mask, Small_Key]\<rparr>) ''Put on the mask'' =
     Inr (''As soon as you put on the mask, the spiders gather around you, and as you move, they spread out making way for you. You focus your efforts in investigating the room and find a hidden passage that leads you... to the lost treasure of Anders Hejlsberg! You did it adventurer, now go check the code.'',
          Never) \<and>
   Act TypeId_as_written ('''', \<lparr>health = NumLit 2, position = AtElement (level GameMap_1 ! 1),
               inventory = [Spider_Mask, Small_Key]\<rparr>) ''Put on the mask'' \<noteq>
     Inr (''As soon as you put on the mask, the spiders gather around you, and as you move, they spread out making way for you. You focus your efforts in investigating the room and find a hidden passage that leads you... to the lost treasure of Anders Hejlsberg! You did it adventurer, now go check the code.'',
          Player \<lparr>health = NumLit 2, position = AtElement (level GameMap_1 ! 1),
                  inventory = [Spider_Mask, Small_Key]\<rparr>)"
proof -
  let ?g = "('''', \<lparr>health = NumLit 2, position = AtElement (level GameMap_1 ! 1),
                    inventory = [Spider_Mask, Small_Key]\<rparr>) :: GameState"
  have "Act TypeId_as_written ?g ''Put on the mask'' =
     (if extends_GameState (Actions (snd ?g) spidersRoom_putMask)
      then Inr (CheckActionResult (Actions (snd ?g) spidersRoom_putMask))
      else Inl NotAGameState)"
    by (rule Act_AtElement [where req = "Some Spider_Mask" and e = "level GameMap_1 ! 1"])
       (simp_all add: GameMap_1_def set_ListActions)
  then show ?thesis by simp
qed

text \<open>
  C7, amended: for every state in which the Terminal effect \<^verbatim>\<open>spidersRoom.putMask\<close> is
  performed by a legal action, \<^verbatim>\<open>Act\<close> returns the entry of the effect as it is: the fixed win
  text as narration and, in the place of the player state, the sentinel \<^verbatim>\<open>never\<close> of the
  entry. The result does not depend on the player state of the input and does not hold it.
\<close>

theorem Terminal_effect_returns_never:
  assumes "position (snd TGameState) = AtElement e"
    and "TAction \<in> set (ListActions TypeId TGameState (actions e))"
    and "map_of (actions e) TAction = Some (req, spidersRoom_putMask)"
  shows "Act TypeId TGameState TAction =
     Inr (''As soon as you put on the mask, the spiders gather around you, and as you move, they spread out making way for you. You focus your efforts in investigating the room and find a hidden passage that leads you... to the lost treasure of Anders Hejlsberg! You did it adventurer, now go check the code.'',
          Never)"
  by (simp add: Act_AtElement [OF assms])

theorem Terminal_effect_returns_never_witness:
  "position (snd (('''', \<lparr>health = NumLit 2, position = AtElement (level GameMap_4 ! 1),
                          inventory = [Spider_Mask, Small_Key]\<rparr>) :: GameState)) =
     AtElement (level GameMap_4 ! 1) \<and>
   map_of (actions (level GameMap_4 ! 1)) ''Put on the mask'' = Some (Some Spider_Mask, spidersRoom_putMask) \<and>
   Act TypeId_as_written ('''', \<lparr>health = NumLit 2, position = AtElement (level GameMap_4 ! 1),
               inventory = [Spider_Mask, Small_Key]\<rparr>) ''Put on the mask'' =
     Inr (fst (Actions NewState spidersRoom_putMask), Never)"
proof -
  let ?g = "('''', \<lparr>health = NumLit 2, position = AtElement (level GameMap_4 ! 1),
                    inventory = [Spider_Mask, Small_Key]\<rparr>) :: GameState"
  have p: "position (snd ?g) = AtElement (level GameMap_4 ! 1)" by simp
  have l: "''Put on the mask'' \<in> set (ListActions TypeId_as_written ?g (actions (level GameMap_4 ! 1)))"
    by (simp add: GameMap_4_def set_ListActions)
  have m: "map_of (actions (level GameMap_4 ! 1)) ''Put on the mask'' =
      Some (Some Spider_Mask, spidersRoom_putMask)"
    by (simp add: GameMap_4_def)
  from Terminal_effect_returns_never [OF p l m] p m show ?thesis by simp
qed

text \<open>
  C10, as stated, fails: an effect that is not Terminal sets the position to a level, but the
  description of that level is not always appended. At the chest with health 1,
  "Force it open" leaves health 0, and \<^verbatim>\<open>Act\<close> returns the narration of the effect followed
  by " You are Dead - Game Over!" and a null player state: no description of level 2, and no
  player at level scope.
\<close>

theorem Bite_at_health_1_ends_the_game:
  "chest_force \<noteq> spidersRoom_putMask \<and>
   map_of (actions (level GameMap_2 ! 2)) ''Force it open'' = Some (None, chest_force) \<and>
   Act TypeId_as_written ('''', \<lparr>health = NumLit 1, position = AtElement (level GameMap_2 ! 2), inventory = []\<rparr>)
       ''Force it open'' =
     Inr (''As you rattle the chest's lock, a spider comes out of nowhere and bites you.  You are Dead - Game Over!'',
          Null) \<and>
   Act TypeId_as_written ('''', \<lparr>health = NumLit 1, position = AtElement (level GameMap_2 ! 2), inventory = []\<rparr>)
       ''Force it open'' \<noteq>
     Inr (''As you rattle the chest's lock, a spider comes out of nowhere and bites you. ''
            @ '' '' @ DescribeMapLevel GameMap_2,
          Player \<lparr>health = NumLit 0, position = AtLevel GameMap_2, inventory = []\<rparr>)"
proof -
  let ?g = "('''', \<lparr>health = NumLit 1, position = AtElement (level GameMap_2 ! 2),
                    inventory = []\<rparr>) :: GameState"
  have d: "Num_Decrement (NumLit 1) = NumLit 0" by (simp add: Num_Decrement_table)
  have m: "map_of (actions (level GameMap_2 ! 2)) ''Force it open'' = Some (None, chest_force)"
    by (simp add: GameMap_2_def)
  have "Act TypeId_as_written ?g ''Force it open'' =
     (if extends_GameState (Actions (snd ?g) chest_force)
      then Inr (CheckActionResult (Actions (snd ?g) chest_force))
      else Inl NotAGameState)"
    by (rule Act_AtElement [where req = None and e = "level GameMap_2 ! 2"])
       (simp_all add: GameMap_2_def set_ListActions)
  then have "Act TypeId_as_written ?g ''Force it open'' =
     Inr (''As you rattle the chest's lock, a spider comes out of nowhere and bites you.  You are Dead - Game Over!'',
          Null)"
    by (simp add: d)
  with m show ?thesis by simp
qed

text \<open>
  C10, amended: every entry of the effects registry that is not Terminal has a state
  transform that sets the position to level 0, 1 or 2 of the map; consequently, after any
  legal interaction with such an effect whose resulting health is a number other than 0,
  the player is at level scope, not inside a room or an item, and \<^verbatim>\<open>Act\<close> returns the
  narration of the effect followed by a space and the description of that level.
\<close>

theorem NonTerminal_effects_lead_to_level:
  "(k \<noteq> spidersRoom_putMask \<longrightarrow>
      (\<exists>p l. snd (Actions TPlayerState k) = Some p \<and> position p = AtLevel l \<and>
             l \<in> {GameMap ! 0, GameMap ! 1, GameMap ! 2})) \<and>
   (position (snd TGameState) = AtElement e \<and>
    TAction \<in> set (ListActions TypeId TGameState (actions e)) \<and>
    map_of (actions e) TAction = Some (req, k) \<and> k \<noteq> spidersRoom_putMask \<and>
    Actions (snd TGameState) k = (t, Some p) \<and> health p = NumLit n \<and> n \<noteq> 0
    \<longrightarrow> (\<exists>l. l \<in> {GameMap ! 0, GameMap ! 1, GameMap ! 2} \<and> position p = AtLevel l \<and>
             Act TypeId TGameState TAction = Inr (t @ '' '' @ DescribeMapLevel l, Player p)))"
proof (intro conjI impI)
  assume "k \<noteq> spidersRoom_putMask"
  then show "\<exists>p l. snd (Actions TPlayerState k) = Some p \<and> position p = AtLevel l \<and>
             l \<in> {GameMap ! 0, GameMap ! 1, GameMap ! 2}"
    by (cases k) (simp_all add: GameMap_def)
next
  assume a: "position (snd TGameState) = AtElement e \<and>
    TAction \<in> set (ListActions TypeId TGameState (actions e)) \<and>
    map_of (actions e) TAction = Some (req, k) \<and> k \<noteq> spidersRoom_putMask \<and>
    Actions (snd TGameState) k = (t, Some p) \<and> health p = NumLit n \<and> n \<noteq> 0"
  then have act: "Act TypeId TGameState TAction =
     (if extends_GameState (Actions (snd TGameState) k)
      then Inr (CheckActionResult (Actions (snd TGameState) k))
      else Inl NotAGameState)"
    by (intro Act_AtElement) auto
  from a have "\<exists>l. position p = AtLevel l \<and> l \<in> {GameMap ! 0, GameMap ! 1, GameMap ! 2}"
    by (cases k) (auto simp: GameMap_def)
  then obtain l where l: "position p = AtLevel l" "l \<in> {GameMap ! 0, GameMap ! 1, GameMap ! 2}"
    by blast
  from act a l(1) have "Act TypeId TGameState TAction = Inr (t @ '' '' @ DescribeMapLevel l, Player p)"
    by simp
  with l show "\<exists>l. l \<in> {GameMap ! 0, GameMap ! 1, GameMap ! 2} \<and> position p = AtLevel l \<and>
             Act TypeId TGameState TAction = Inr (t @ '' '' @ DescribeMapLevel l, Player p)"
    by blast
qed

theorem NonTerminal_effects_lead_to_level_witness:
  "snd (Actions NewState chest_leave) = Some (NewState\<lparr>position := AtLevel GameMap_2\<rparr>) \<and>
   GameMap_2 \<in> {GameMap ! 0, GameMap ! 1, GameMap ! 2} \<and>
   Act TypeId_as_written ('''', NewState\<lparr>position := AtElement (level GameMap_2 ! 2)\<rparr>) ''Leave it'' =
     Inr ('''' @ '' '' @ DescribeMapLevel GameMap_2, Player (NewState\<lparr>position := AtLevel GameMap_2\<rparr>))"
proof -
  let ?s = "NewState\<lparr>position := AtElement (level GameMap_2 ! 2)\<rparr>"
  let ?p = "NewState\<lparr>position := AtLevel GameMap_2\<rparr>"
  let ?g = "('''', ?s) :: GameState"
  have k: "chest_leave \<noteq> spidersRoom_putMask" by simp
  have h: "position (snd ?g) = AtElement (level GameMap_2 ! 2) \<and>
    ''Leave it'' \<in> set (ListActions TypeId_as_written ?g (actions (level GameMap_2 ! 2))) \<and>
    map_of (actions (level GameMap_2 ! 2)) ''Leave it'' = Some (None, chest_leave) \<and>
    chest_leave \<noteq> spidersRoom_putMask \<and>
    Actions (snd ?g) chest_leave = ('''', Some ?p) \<and> health ?p = NumLit 2 \<and> (2::int) \<noteq> 0"
    by (simp add: GameMap_2_def set_ListActions NewState_def)
  note t = NonTerminal_effects_lead_to_level [of chest_leave NewState ?g "level GameMap_2 ! 2"
      "''Leave it''" TypeId_as_written None "''''" ?p 2]
  from t k have "\<exists>p l. snd (Actions NewState chest_leave) = Some p \<and> position p = AtLevel l \<and>
             l \<in> {GameMap ! 0, GameMap ! 1, GameMap ! 2}"
    by blast
  then have r1: "GameMap_2 \<in> {GameMap ! 0, GameMap ! 1, GameMap ! 2}" by auto
  from t h have "\<exists>l. l \<in> {GameMap ! 0, GameMap ! 1, GameMap ! 2} \<and> position ?p = AtLevel l \<and>
             Act TypeId_as_written ?g ''Leave it'' = Inr ('''' @ '' '' @ DescribeMapLevel l, Player ?p)"
    by blast
  then have r2: "Act TypeId_as_written ?g ''Leave it'' = Inr ('''' @ '' '' @ DescribeMapLevel GameMap_2, Player ?p)"
    by auto
  have r0: "snd (Actions NewState chest_leave) = Some ?p" by simp
  from r0 r1 r2 show ?thesis by blast
qed

end
